theory Spec2Isabelle
  imports Complex_Main "HOL-Library.AList"
begin

section \<open>JavaScript values, objects and the heap\<close>

text \<open>
  The service handles JSON documents. A value is a JSON value, a store identifier
  (the driver's ObjectId, kept as its 24 digit hexadecimal form) or a reference to a
  mutable object. Numbers are the finite IEEE doubles, each represented by the rational
  it denotes. An object is its list of own properties in insertion order: reading a
  property is \<open>map_of\<close> (\<open>None\<close> is JavaScript's \<open>undefined\<close>) and the assignment
  \<open>o.k = v\<close> is \<open>AList.update k v\<close>, which overwrites in place or appends.

  \<open>req.body\<close> is one object that the handlers and the gateway share and mutate, so it
  lives in a heap and is passed by reference. An array body behaves in this service as an
  object whose keys are its indices.
\<close>

type_synonym ref = nat

datatype oid = Oid string

datatype jsval =
    JNull
  | JBool bool
  | JNum rat
  | JStr string
  | JId oid
  | JArr "jsval list"
  | JObj "(string \<times> jsval) list"
  | JRef ref

type_synonym obj = "(string \<times> jsval) list"

type_synonym heap = "ref \<Rightarrow> obj"

text \<open>The test \<open>if (product)\<close>: JavaScript's ToBoolean.\<close>

fun truthy :: "jsval \<Rightarrow> bool" where
  "truthy JNull = False"
| "truthy (JBool b) = b"
| "truthy (JNum n) = (n \<noteq> 0)"
| "truthy (JStr s) = (s \<noteq> [])"
| "truthy (JId i) = True"
| "truthy (JArr xs) = True"
| "truthy (JObj fs) = True"
| "truthy (JRef p) = True"

fun toHexString :: "oid \<Rightarrow> string" where
  "toHexString (Oid h) = h"

section \<open>Errors and the outcome of a call\<close>

text \<open>
  A call into the gateway or the driver either throws synchronously, before any promise
  exists (\<open>Thrown\<close>), or returns a promise that is fulfilled (\<open>Resolved\<close>) or rejected
  (\<open>Rejected\<close>). \<open>BSONError\<close> is what \<open>new ObjectId(id)\<close> throws on an identifier it
  cannot parse; \<open>Error\<close> is \<open>new Error(message)\<close>; \<open>StoreError\<close> is a failure reported
  by the driver; \<open>TypeError\<close> is what a call on the \<open>collection\<close> throws while it is
  still null.
\<close>

datatype error = BSONError | Error string | StoreError string | TypeError

datatype 'a outcome = Resolved 'a | Rejected error | Thrown error

section \<open>The collection of the driver\<close>

text \<open>
  The fields of the driver's replies that db.js reads, and the operations of
  \<open>collection\<close> it calls, over a store state \<open>'s\<close>. The filter \<open>{ _id }\<close> is
  passed as the identifier. \<open>createPk\<close> is the identifier the client generates for a
  document inserted without one.
\<close>

record updateResult =
  matchedCount :: nat
  modifiedCount :: nat

record modifyResult =
  ok :: nat
  rvalue :: jsval

record insertResult =
  acknowledged :: bool
  insertedId :: jsval

record 's collection =
  createPk :: "'s \<Rightarrow> oid"
  findOne :: "oid \<Rightarrow> 's \<Rightarrow> jsval outcome \<times> 's"
  replaceOne :: "oid \<Rightarrow> obj \<Rightarrow> 's \<Rightarrow> updateResult outcome \<times> 's"
  findOneAndDelete :: "oid \<Rightarrow> 's \<Rightarrow> modifyResult outcome \<times> 's"
  insertOne :: "obj \<Rightarrow> 's \<Rightarrow> insertResult outcome \<times> 's"

record 's world =
  heap :: heap
  store :: 's

section \<open>The persistence gateway (db.js)\<close>

text \<open>
  Every operation takes the identifier parser \<open>ObjectId\<close> of the driver
  (\<open>None\<close> when the constructor throws) and the collection.
\<close>

definition DB_queryById ::
  "(string \<Rightarrow> oid option) \<Rightarrow> 's collection \<Rightarrow> string \<Rightarrow> 's world \<Rightarrow> jsval outcome \<times> 's world" where
  "DB_queryById ObjectId coll pid w =
     (case ObjectId pid of
        None \<Rightarrow> (Thrown BSONError, w)
      | Some oid \<Rightarrow>
          (case findOne coll oid (store w) of (r, s') \<Rightarrow> (r, w\<lparr>store := s'\<rparr>)))"

text \<open>
  \<open>update\<close>: a textual \<open>_id\<close> of the product is replaced by the parsed identifier, in
  place; then \<open>replaceOne\<close>, whose reply decides between returning the product and
  throwing inside \<open>then\<close>. The \<open>catch\<close> logs and throws the error again.
\<close>

definition DB_update ::
  "(string \<Rightarrow> oid option) \<Rightarrow> 's collection \<Rightarrow> string \<Rightarrow> ref \<Rightarrow> 's world \<Rightarrow> jsval outcome \<times> 's world" where
  "DB_update ObjectId coll pid product w =
     (case ObjectId pid of
        None \<Rightarrow> (Thrown BSONError, w)
      | Some oid \<Rightarrow>
          (let h = (case map_of (heap w product) ''_id'' of
                      Some (JStr s) \<Rightarrow>
                        (heap w)(product := AList.update ''_id'' (JId oid) (heap w product))
                    | _ \<Rightarrow> heap w)
           in case replaceOne coll oid (h product) (store w) of
                (Resolved result, s') \<Rightarrow>
                  if modifiedCount result = 1 \<or> matchedCount result = 1
                  then (Resolved (JRef product), \<lparr>heap = h, store = s'\<rparr>)
                  else (Rejected (Error ''Error updating product''), \<lparr>heap = h, store = s'\<rparr>)
              | (Rejected err, s') \<Rightarrow> (Rejected err, \<lparr>heap = h, store = s'\<rparr>)
              | (Thrown err, s') \<Rightarrow> (Thrown err, \<lparr>heap = h, store = s'\<rparr>)))"

definition DB_delete ::
  "(string \<Rightarrow> oid option) \<Rightarrow> 's collection \<Rightarrow> string \<Rightarrow> 's world \<Rightarrow> jsval outcome \<times> 's world" where
  "DB_delete ObjectId coll pid w =
     (case ObjectId pid of
        None \<Rightarrow> (Thrown BSONError, w)
      | Some oid \<Rightarrow>
          (case findOneAndDelete coll oid (store w) of
             (Resolved result, s') \<Rightarrow>
               if ok result \<noteq> 0
               then (Resolved (rvalue result), w\<lparr>store := s'\<rparr>)
               else (Rejected (Error ''Error deleting product''), w\<lparr>store := s'\<rparr>)
           | (Rejected err, s') \<Rightarrow> (Rejected err, w\<lparr>store := s'\<rparr>)
           | (Thrown err, s') \<Rightarrow> (Thrown err, w\<lparr>store := s'\<rparr>)))"

text \<open>
  \<open>collection.insertOne(product)\<close> first gives a product without \<open>_id\<close> (undefined or
  null) a generated one, in place, and then sends it to the store. A call that throws,
  as on a \<open>collection\<close> that is still null, has not touched the product.
\<close>

definition assignPk :: "'s collection \<Rightarrow> 's \<Rightarrow> obj \<Rightarrow> obj" where
  "assignPk coll s doc =
     (case map_of doc ''_id'' of
        None \<Rightarrow> AList.update ''_id'' (JId (createPk coll s)) doc
      | Some JNull \<Rightarrow> AList.update ''_id'' (JId (createPk coll s)) doc
      | Some v \<Rightarrow> doc)"

definition DB_insert ::
  "'s collection \<Rightarrow> ref \<Rightarrow> 's world \<Rightarrow> jsval outcome \<times> 's world" where
  "DB_insert coll product w =
     (let h = (heap w)(product := assignPk coll (store w) (heap w product))
      in case insertOne coll (h product) (store w) of
           (Resolved result, s') \<Rightarrow>
             if acknowledged result
             then (Resolved (JRef product),
                   \<lparr>heap = h(product := AList.update ''_id'' (insertedId result) (h product)),
                    store = s'\<rparr>)
             else (Rejected (Error ''Error inserting product''), \<lparr>heap = h, store = s'\<rparr>)
         | (Rejected err, s') \<Rightarrow> (Rejected err, \<lparr>heap = h, store = s'\<rparr>)
         | (Thrown err, s') \<Rightarrow> (Thrown err, w\<lparr>store := s'\<rparr>))"

section \<open>The validation rules (index.js, express-validator)\<close>

text \<open>
  A request as the routes see it: the route parameter \<open>id\<close>, the parsed body (a heap
  object), the query string and the headers. No cookie parser is installed, so
  \<open>req.cookies\<close> is undefined, and no rule names the only route parameter.
\<close>

record request =
  params_id :: string
  body :: ref
  query :: obj
  headers :: obj

datatype validator = IsString | IsFloat | IsInt | IsURL

datatype chain = Check string validator string | CheckExact string

datatype verror =
    FieldError (msg: string) (location: string) (path: string) (fvalue: "jsval option")
  | UnknownFields (msg: string) (fields: obj)

text \<open>\<open>productValidationRules\<close> of index.js, and of the variant without the URL rule.\<close>

definition productValidationRules :: "chain list" where
  "productValidationRules =
     [Check ''name'' IsString ''Name must be a string'',
      Check ''description'' IsString ''Description must be a string'',
      Check ''price'' IsFloat ''Price must be a positive float'',
      Check ''stock'' IsInt ''Stock must be a positive integer'',
      Check ''image_url'' IsURL ''URL must be a valid URL'',
      CheckExact ''No additional fields allowed'']"

definition productValidationRules_part_000 :: "chain list" where
  "productValidationRules_part_000 =
     [Check ''name'' IsString ''Name must be a string'',
      Check ''description'' IsString ''Description must be a string'',
      Check ''price'' IsFloat ''Price must be a positive float'',
      Check ''stock'' IsInt ''Stock must be a positive integer'',
      CheckExact ''No additional fields allowed'']"

subsection \<open>The validators on text\<close>

definition isDigit :: "char \<Rightarrow> bool" where
  "isDigit c = (c \<in> set ''0123456789'')"

fun dropSign :: "string \<Rightarrow> string" where
  "dropSign [] = []"
| "dropSign (c # cs) = (if c = CHR ''-'' \<or> c = CHR ''+'' then cs else c # cs)"

definition isNegative :: "string \<Rightarrow> bool" where
  "isNegative s = (case s of [] \<Rightarrow> False | c # cs \<Rightarrow> c = CHR ''-'')"

definition intOf :: "string \<Rightarrow> int" where
  "intOf ds = foldl (\<lambda>n c. 10 * n + (of_char c - 48)) 0 ds"

text \<open>
  \<open>isInt(str, {min: 0})\<close>: the pattern \<open>^[-+]?[0-9]+$\<close> and \<open>str >= 0\<close>, a comparison
  of the number the text denotes (\<open>-0\<close> passes).
\<close>

definition isInt :: "string \<Rightarrow> bool" where
  "isInt str =
     (let ds = dropSign str
      in ds \<noteq> [] \<and> list_all isDigit ds \<and>
         (if isNegative str then list_all (\<lambda>c. c = CHR ''0'') ds else True))"

text \<open>
  \<open>isFloat(str, {min: 0})\<close>: the pattern
  \<open>^[-+]?([0-9]+)?(\.[0-9]*)?([eE][+-]?[0-9]+)?$\<close>, matched here from left to right
  into sign, integer digits, fraction digits, exponent sign and exponent digits.
\<close>

definition matchFloat :: "string \<Rightarrow> (bool \<times> string \<times> string \<times> bool \<times> string) option" where
  "matchFloat str =
     (let s1 = dropSign str;
          ip = takeWhile isDigit s1;
          s2 = dropWhile isDigit s1;
          fp = (case s2 of [] \<Rightarrow> [] | c # r \<Rightarrow> if c = CHR ''.'' then takeWhile isDigit r else []);
          s3 = (case s2 of [] \<Rightarrow> [] | c # r \<Rightarrow> if c = CHR ''.'' then dropWhile isDigit r else s2)
      in case s3 of
           [] \<Rightarrow> Some (isNegative str, ip, fp, False, [])
         | c # r \<Rightarrow>
             if (c = CHR ''e'' \<or> c = CHR ''E'') \<and> dropSign r \<noteq> [] \<and> list_all isDigit (dropSign r)
             then Some (isNegative str, ip, fp, isNegative r, dropSign r)
             else None)"

text \<open>
  \<open>parseFloat(str) >= 0\<close> for a text that matches. Without a digit before the exponent
  the number is NaN. A negative number passes when it is rounded to \<open>-0\<close>, which is when
  its magnitude \<open>m * 10 ^ scale\<close> is at most half the smallest double, \<open>2 ^ -1075\<close>.
\<close>

definition roundsToZero :: "int \<Rightarrow> int \<Rightarrow> bool" where
  "roundsToZero m scale =
     (if 0 \<le> scale then m = 0 else m * 2 ^ 1075 \<le> 10 ^ nat (- scale))"

definition isFloat :: "string \<Rightarrow> bool" where
  "isFloat str =
     (if str = [] \<or> str = ''.'' \<or> str = '','' \<or> str = ''-'' \<or> str = ''+'' then False
      else case matchFloat str of
             None \<Rightarrow> False
           | Some (neg, ip, fp, eneg, ep) \<Rightarrow>
               (ip \<noteq> [] \<or> fp \<noteq> []) \<and>
               (if neg
                then roundsToZero (intOf (ip @ fp))
                       ((if eneg then - intOf ep else intOf ep) - int (length fp))
                else True))"

subsection \<open>The validators on values\<close>

text \<open>
  \<open>isString\<close> is \<open>typeof value === 'string'\<close>. The other validators see the value as
  text: undefined and null as the empty text, which none of them accepts, a boolean as
  \<open>true\<close> or \<open>false\<close>, a number \<open>n\<close> as \<open>String(n)\<close>. \<open>String(n)\<close> always matches the
  pattern of \<open>isFloat\<close> and denotes \<open>n\<close>; it matches the pattern of \<open>isInt\<close> when \<open>n\<close> is
  an integer below \<open>10 ^ 21\<close>, where the exponent notation starts. What the library
  answers on a value that is an object or, as an element, an array, and what \<open>isURL\<close>
  answers on any text, is the parameter \<open>ext\<close>.
\<close>

fun verdict :: "(validator \<Rightarrow> jsval \<Rightarrow> bool) \<Rightarrow> validator \<Rightarrow> jsval option \<Rightarrow> bool" where
  "verdict ext IsString v = (case v of Some (JStr s) \<Rightarrow> True | _ \<Rightarrow> False)"
| "verdict ext IsFloat v =
     (case v of
        None \<Rightarrow> False
      | Some JNull \<Rightarrow> False
      | Some (JBool b) \<Rightarrow> False
      | Some (JNum n) \<Rightarrow> 0 \<le> n
      | Some (JStr s) \<Rightarrow> isFloat s
      | Some x \<Rightarrow> ext IsFloat x)"
| "verdict ext IsInt v =
     (case v of
        None \<Rightarrow> False
      | Some JNull \<Rightarrow> False
      | Some (JBool b) \<Rightarrow> False
      | Some (JNum n) \<Rightarrow> of_int \<lfloor>n\<rfloor> = n \<and> 0 \<le> n \<and> n < 10 ^ 21
      | Some (JStr s) \<Rightarrow> isInt s
      | Some x \<Rightarrow> ext IsInt x)"
| "verdict ext IsURL v =
     (case v of
        None \<Rightarrow> False
      | Some JNull \<Rightarrow> False
      | Some x \<Rightarrow> ext IsURL x)"

subsection \<open>Running the chains\<close>

definition toLowerCase :: "string \<Rightarrow> string" where
  "toLowerCase s =
     map (\<lambda>c. if 65 \<le> (of_char c :: nat) \<and> (of_char c :: nat) \<le> 90
              then char_of (of_char c + 32 :: nat) else c) s"

text \<open>
  \<open>check(field)\<close> selects the field in body, cookies, headers, params and query. Where
  several locations are involved, the instances with a value are validated, and the first
  instance (the body's) when none has a value.
\<close>

definition selectFields :: "request \<Rightarrow> heap \<Rightarrow> string \<Rightarrow> (string \<times> jsval option) list" where
  "selectFields req h field =
     (let instances =
            [(''body'', map_of (h (body req)) field),
             (''cookies'', None),
             (''headers'', map_of (headers req) (toLowerCase field)),
             (''params'', None),
             (''query'', map_of (query req) field)];
          withValue = filter (\<lambda>(l, v). v \<noteq> None) instances
      in if withValue = [] then [hd instances] else withValue)"

text \<open>
  \<open>isString\<close> judges the value of an instance as a whole. \<open>isFloat\<close>, \<open>isInt\<close> and
  \<open>isURL\<close> judge each element of a value that is an array, and the value itself
  otherwise; every value that fails makes one error, which carries it.
\<close>

definition instanceValues :: "validator \<Rightarrow> jsval option \<Rightarrow> jsval option list" where
  "instanceValues v x =
     (case v of
        IsString \<Rightarrow> [x]
      | _ \<Rightarrow> (case x of Some (JArr xs) \<Rightarrow> map Some xs | _ \<Rightarrow> [x]))"

definition checkErrors ::
  "(validator \<Rightarrow> jsval \<Rightarrow> bool) \<Rightarrow> request \<Rightarrow> heap \<Rightarrow> string \<Rightarrow> validator \<Rightarrow> string \<Rightarrow> verror list" where
  "checkErrors ext req h field v message =
     concat
       (map (\<lambda>(l, x).
               map (\<lambda>e. FieldError message l field e)
                 (filter (\<lambda>e. \<not> verdict ext v e) (instanceValues v x)))
          (selectFields req h field))"

text \<open>
  \<open>checkExact([], {locations: ['body']})\<close> knows the fields of the chains that ran on
  the request before it; every other key of the body is an unknown field, and all of them
  make one error.
\<close>

definition exactErrors :: "request \<Rightarrow> heap \<Rightarrow> string list \<Rightarrow> string \<Rightarrow> verror list" where
  "exactErrors req h known message =
     (let unknownFields = filter (\<lambda>(k, x). k \<notin> set known) (h (body req))
      in if unknownFields = [] then [] else [UnknownFields message unknownFields])"

text \<open>
  The chains are middlewares that run one after the other, each adding its errors to the
  request; \<open>known\<close> are the fields of the chains that ran so far.
\<close>

fun runChains ::
  "(validator \<Rightarrow> jsval \<Rightarrow> bool) \<Rightarrow> request \<Rightarrow> heap \<Rightarrow> string list \<Rightarrow> chain list \<Rightarrow> verror list" where
  "runChains ext req h known [] = []"
| "runChains ext req h known (Check field v message # cs) =
     checkErrors ext req h field v message @ runChains ext req h (known @ [field]) cs"
| "runChains ext req h known (CheckExact message # cs) =
     exactErrors req h known message @ runChains ext req h known cs"

definition validationResult ::
  "(validator \<Rightarrow> jsval \<Rightarrow> bool) \<Rightarrow> chain list \<Rightarrow> request \<Rightarrow> heap \<Rightarrow> verror list" where
  "validationResult ext rules req h = runChains ext req h [] rules"

section \<open>The routes (index.js)\<close>

text \<open>
  A handler either sends a response (status and payload) or, when a call throws before a
  promise exists, ends with its own promise rejected and no response sent
  (\<open>Unanswered\<close>). \<open>res.send(product)\<close> serialises the object as it is at that moment.
\<close>

datatype payload = Text string | Json jsval | Errors "verror list"

datatype reply = Sent nat payload | Unanswered error

definition send :: "heap \<Rightarrow> jsval \<Rightarrow> payload" where
  "send h v = (case v of JRef p \<Rightarrow> Json (JObj (h p)) | _ \<Rightarrow> Json v)"

definition get_products_id ::
  "(string \<Rightarrow> oid option) \<Rightarrow> 's collection \<Rightarrow> request \<Rightarrow> 's world \<Rightarrow> reply \<times> 's world" where
  "get_products_id ObjectId coll req w =
     (case DB_queryById ObjectId coll (params_id req) w of
        (Resolved product, w') \<Rightarrow>
          if truthy product then (Sent 200 (send (heap w') product), w')
          else (Sent 404 (Text ''Product not found''), w')
      | (Rejected err, w') \<Rightarrow> (Sent 500 (Text ''Error querying product''), w')
      | (Thrown err, w') \<Rightarrow> (Unanswered err, w'))"

definition post_products ::
  "(validator \<Rightarrow> jsval \<Rightarrow> bool) \<Rightarrow> chain list \<Rightarrow> 's collection \<Rightarrow> request \<Rightarrow> 's world
    \<Rightarrow> reply \<times> 's world" where
  "post_products ext rules coll req w =
     (let result = validationResult ext rules req (heap w)
      in if result \<noteq> [] then (Sent 400 (Errors result), w)
         else case DB_insert coll (body req) w of
                (Resolved product, w') \<Rightarrow> (Sent 201 (send (heap w') product), w')
              | (Rejected err, w') \<Rightarrow> (Sent 500 (Text ''Error inserting product''), w')
              | (Thrown err, w') \<Rightarrow> (Unanswered err, w'))"

definition put_products_id ::
  "(validator \<Rightarrow> jsval \<Rightarrow> bool) \<Rightarrow> chain list \<Rightarrow> (string \<Rightarrow> oid option) \<Rightarrow> 's collection
    \<Rightarrow> request \<Rightarrow> 's world \<Rightarrow> reply \<times> 's world" where
  "put_products_id ext rules ObjectId coll req w =
     (let result = validationResult ext rules req (heap w)
      in if result \<noteq> [] then (Sent 400 (Errors result), w)
         else case DB_update ObjectId coll (params_id req) (body req) w of
                (Resolved product, w') \<Rightarrow>
                  if truthy product then (Sent 200 (send (heap w') product), w')
                  else (Sent 404 (Text ''Product not found''), w')
              | (Rejected err, w') \<Rightarrow> (Sent 500 (Text ''Error updating product''), w')
              | (Thrown err, w') \<Rightarrow> (Unanswered err, w'))"

definition delete_products_id ::
  "(string \<Rightarrow> oid option) \<Rightarrow> 's collection \<Rightarrow> request \<Rightarrow> 's world \<Rightarrow> reply \<times> 's world" where
  "delete_products_id ObjectId coll req w =
     (case DB_delete ObjectId coll (params_id req) w of
        (Resolved product, w') \<Rightarrow>
          if truthy product then (Sent 200 (send (heap w') product), w')
          else (Sent 404 (Text ''Product not found''), w')
      | (Rejected err, w') \<Rightarrow> (Sent 500 (Text ''Error deleting product''), w')
      | (Thrown err, w') \<Rightarrow> (Unanswered err, w'))"

section \<open>A collection in memory\<close>

text \<open>
  The document store when it works: the documents in insertion order, each with its
  \<open>_id\<close>. \<open>findOne\<close> answers the first document with the identifier or null;
  \<open>replaceOne\<close> counts what it matched and what it changed, keeps the identifier of the
  document it replaces and refuses a replacement that carries another one;
  \<open>findOneAndDelete\<close> removes and answers the first match; \<open>insertOne\<close> refuses a
  duplicate identifier and acknowledges every other document. \<open>newId\<close> is the next
  identifier the client generates.
\<close>

definition hasId :: "jsval \<Rightarrow> obj \<Rightarrow> bool" where
  "hasId k d = (map_of d ''_id'' = Some k)"

fun replaceFirst :: "('a \<Rightarrow> bool) \<Rightarrow> 'a \<Rightarrow> 'a list \<Rightarrow> 'a list" where
  "replaceFirst P y [] = []"
| "replaceFirst P y (x # xs) = (if P x then y # xs else x # replaceFirst P y xs)"

fun removeFirst :: "('a \<Rightarrow> bool) \<Rightarrow> 'a list \<Rightarrow> 'a list" where
  "removeFirst P [] = []"
| "removeFirst P (x # xs) = (if P x then xs else x # removeFirst P xs)"

definition memory :: "oid \<Rightarrow> (obj list) collection" where
  "memory newId =
     \<lparr> createPk = (\<lambda>docs. newId),
       findOne = (\<lambda>oid docs.
         (Resolved (case List.find (hasId (JId oid)) docs of None \<Rightarrow> JNull | Some d \<Rightarrow> JObj d),
          docs)),
       replaceOne = (\<lambda>oid doc docs.
         case List.find (hasId (JId oid)) docs of
           None \<Rightarrow> (Resolved \<lparr>matchedCount = 0, modifiedCount = 0\<rparr>, docs)
         | Some d \<Rightarrow>
             (let new = (case map_of doc ''_id'' of
                           None \<Rightarrow> (''_id'', JId oid) # doc
                         | Some k \<Rightarrow> doc)
              in if \<not> hasId (JId oid) new
                 then (Rejected (StoreError ''the (immutable) field _id was found to have been altered''),
                       docs)
                 else (Resolved \<lparr>matchedCount = 1, modifiedCount = (if new = d then 0 else 1)\<rparr>,
                       replaceFirst (hasId (JId oid)) new docs))),
       findOneAndDelete = (\<lambda>oid docs.
         (Resolved \<lparr>ok = 1,
                    rvalue = (case List.find (hasId (JId oid)) docs of
                                None \<Rightarrow> JNull
                              | Some d \<Rightarrow> JObj d)\<rparr>,
          removeFirst (hasId (JId oid)) docs)),
       insertOne = (\<lambda>doc docs.
         case map_of doc ''_id'' of
           None \<Rightarrow> (Rejected (StoreError ''document without _id''), docs)
         | Some k \<Rightarrow>
             if list_ex (hasId k) docs
             then (Rejected (StoreError ''E11000 duplicate key error''), docs)
             else (Resolved \<lparr>acknowledged = True, insertedId = k\<rparr>, docs @ [doc])) \<rparr>"

text \<open>
  One parser of identifiers, for the examples: it accepts the syntax that every version
  of the driver accepts, 24 hexadecimal digits, which \<open>toHexString\<close> answers in lower
  case. Versions of the driver before 6 also parse any text of 12 bytes, which this parser
  refuses; the properties below take the parser as a parameter.
\<close>

definition isHexDigit :: "char \<Rightarrow> bool" where
  "isHexDigit c = (c \<in> set ''0123456789abcdefABCDEF'')"

definition hexObjectId :: "string \<Rightarrow> oid option" where
  "hexObjectId s =
     (if length s = 24 \<and> list_all isHexDigit s then Some (Oid (toLowerCase s)) else None)"

section \<open>Example data\<close>

text \<open>
  The product of the specification's scenario, a request that carries it, an empty store,
  and a stand-in for the library's answers that accepts every non-empty text.
\<close>

definition krabsId :: oid where
  "krabsId = Oid ''6439519dadb77c080671a573''"

definition krabs :: obj where
  "krabs =
     [(''name'', JStr ''Mr. Krabs''),
      (''description'', JStr ''Geiziger Restaurantbesitzer''),
      (''price'', JNum (33 / 2)),
      (''stock'', JNum 5),
      (''image_url'', JStr ''https://example.com'')]"

definition krabsRequest :: request where
  "krabsRequest =
     \<lparr>params_id = ''6439519dadb77c080671a573'', body = 0, query = [],
      headers = [(''content-type'', JStr ''application/json'')]\<rparr>"

definition emptyStore :: "obj list world" where
  "emptyStore = \<lparr>heap = (\<lambda>p. [])(0 := krabs), store = []\<rparr>"

definition lenient :: "validator \<Rightarrow> jsval \<Rightarrow> bool" where
  "lenient v x = (case x of JStr s \<Rightarrow> s \<noteq> [] | _ \<Rightarrow> False)"

definition stocked :: "obj list world" where
  "stocked = \<lparr>heap = (\<lambda>p. [])(0 := krabs), store = [(''_id'', JId krabsId) # krabs]\<rparr>"

text \<open>A store that is down: every operation of the driver is rejected.\<close>

definition failing :: "error \<Rightarrow> 's collection" where
  "failing e =
     \<lparr> createPk = (\<lambda>s. Oid []),
       findOne = (\<lambda>oid s. (Rejected e, s)),
       replaceOne = (\<lambda>oid doc s. (Rejected e, s)),
       findOneAndDelete = (\<lambda>oid s. (Rejected e, s)),
       insertOne = (\<lambda>doc s. (Rejected e, s)) \<rparr>"

text \<open>The module before \<open>connect\<close>: \<open>collection\<close> is null and every call on it throws.\<close>

definition unconnected :: "'s collection" where
  "unconnected =
     \<lparr> createPk = (\<lambda>s. Oid []),
       findOne = (\<lambda>oid s. (Thrown TypeError, s)),
       replaceOne = (\<lambda>oid doc s. (Thrown TypeError, s)),
       findOneAndDelete = (\<lambda>oid s. (Thrown TypeError, s)),
       insertOne = (\<lambda>doc s. (Thrown TypeError, s)) \<rparr>"

text \<open>The fields of the chains of a list, in order: what \<open>checkExact\<close> knows after them.\<close>

fun chainFields :: "chain list \<Rightarrow> string list" where
  "chainFields [] = []"
| "chainFields (Check field v message # cs) = field # chainFields cs"
| "chainFields (CheckExact message # cs) = chainFields cs"

text \<open>More requests and stores: a body with a bad price and an unknown field, the product
  with an unknown field, the product with a given price and stock, and the store after the
  product was created.\<close>

definition unknownRequest :: request where
  "unknownRequest = \<lparr>params_id = ''6439519dadb77c080671a573'', body = 1, query = [], headers = []\<rparr>"

definition unknownBody :: "obj list world" where
  "unknownBody = \<lparr>heap = (\<lambda>p. [])(1 := [(''price'', JNum (- 1)), (''colour'', JStr ''red'')]), store = []\<rparr>"

definition extraBody :: "obj list world" where
  "extraBody = \<lparr>heap = (\<lambda>p. [])(1 := krabs @ [(''colour'', JStr ''red'')]), store = []\<rparr>"

definition productWith :: "rat \<Rightarrow> rat \<Rightarrow> obj" where
  "productWith p s =
     [(''name'', JStr ''Mr. Krabs''),
      (''description'', JStr ''Geiziger Restaurantbesitzer''),
      (''price'', JNum p),
      (''stock'', JNum s),
      (''image_url'', JStr ''https://example.com'')]"

text \<open>The double that \<open>-0.01\<close> denotes in a JSON body.\<close>

definition minusCent :: rat where
  "minusCent = - 5764607523034235 / 576460752303423488"

definition holding :: "obj \<Rightarrow> obj list world" where
  "holding b = \<lparr>heap = (\<lambda>p. [])(0 := b), store = []\<rparr>"

definition afterPost :: "obj list world" where
  "afterPost =
     \<lparr>heap = (\<lambda>p. [])(0 := krabs @ [(''_id'', JId krabsId)]),
      store = [krabs @ [(''_id'', JId krabsId)]]\<rparr>"

text \<open>The request of the product with \<open>?price=-1\<close> appended to its address.\<close>

definition priceQueryRequest :: request where
  "priceQueryRequest = krabsRequest\<lparr>query := [(''price'', JStr ''-1'')]\<rparr>"

section \<open>Properties of the gateway\<close>

lemma assignPk_update:
  "AList.update ''_id'' v (assignPk coll s doc) = AList.update ''_id'' v doc"
  by (simp add: assignPk_def split: option.split jsval.split)

text \<open>
  C9. On an acknowledged insert the gateway resolves with a reference to the very object
  it was given; in the heap that object has \<open>_id\<close> set to the \<open>insertedId\<close> of the
  store's reply and every other property as before, no property is added or removed
  besides \<open>_id\<close>, and no other object changes.
\<close>

theorem insert_sets_only_id:
  assumes "insertOne coll (assignPk coll (store w) (heap w product)) (store w)
             = (Resolved result, s')"
    and "acknowledged result"
  shows "\<exists>w'. DB_insert coll product w = (Resolved (JRef product), w') \<and>
           store w' = s' \<and>
           heap w' product = AList.update ''_id'' (insertedId result) (heap w product) \<and>
           (\<forall>q. q \<noteq> product \<longrightarrow> heap w' q = heap w q) \<and>
           map_of (heap w' product) ''_id'' = Some (insertedId result) \<and>
           (\<forall>k. k \<noteq> ''_id'' \<longrightarrow> map_of (heap w' product) k = map_of (heap w product) k) \<and>
           fst ` set (heap w' product) = insert ''_id'' (fst ` set (heap w product))"
  using assms
  by (simp add: DB_insert_def assignPk_update AList.update_conv' AList.update_keys
      flip: dom_map_of_conv_image_fst)

theorem insert_sets_only_id_witness:
  "insertOne (memory krabsId) (assignPk (memory krabsId) [] krabs) []
     = (Resolved \<lparr>acknowledged = True, insertedId = JId krabsId\<rparr>,
        [krabs @ [(''_id'', JId krabsId)]]) \<and>
   fst (DB_insert (memory krabsId) 0 emptyStore) = Resolved (JRef 0) \<and>
   heap (snd (DB_insert (memory krabsId) 0 emptyStore)) 0 = krabs @ [(''_id'', JId krabsId)] \<and>
   heap (snd (DB_insert (memory krabsId) 0 emptyStore)) 1 = []"
proof -
  let ?r = "\<lparr>acknowledged = True, insertedId = JId krabsId\<rparr>"
  have h: "insertOne (memory krabsId)
             (assignPk (memory krabsId) (store emptyStore) (heap emptyStore 0)) (store emptyStore)
           = (Resolved ?r, [krabs @ [(''_id'', JId krabsId)]])"
    by (simp add: memory_def assignPk_def hasId_def emptyStore_def krabs_def)
  have a: "acknowledged ?r" by simp
  have u: "AList.update ''_id'' (JId krabsId) krabs = krabs @ [(''_id'', JId krabsId)]"
    by (simp add: krabs_def)
  from insert_sets_only_id [OF h a] h u show ?thesis
    by (auto simp: emptyStore_def)
qed

lemma DB_update_resolved:
  "DB_update ObjectId coll pid product w = (Resolved v, w') \<Longrightarrow> v = JRef product"
  by (auto simp: DB_update_def Let_def split: option.splits prod.splits outcome.splits if_splits)

lemma hexObjectId_krabs: "hexObjectId ''6439519dadb77c080671a573'' = Some krabsId"
  by (simp add: hexObjectId_def isHexDigit_def toLowerCase_def krabsId_def)

lemma krabs_valid:
  "validationResult lenient productValidationRules krabsRequest ((\<lambda>p. [])(0 := krabs)) = []"
  by (simp add: validationResult_def productValidationRules_def checkErrors_def instanceValues_def
      exactErrors_def selectFields_def krabsRequest_def krabs_def lenient_def toLowerCase_def)

text \<open>
  C8, as the code has it. The gateway's update never resolves to a falsy value: whenever
  it resolves, it resolves with the reference to the product it was given, which is
  truthy; so the route of PUT never answers 404. (That every call either resolves or
  rejects does not hold: an identifier that does not parse makes \<open>update\<close> throw before
  it returns a promise.)
\<close>

theorem update_never_falsy:
  "(\<forall>v w'. DB_update ObjectId coll pid product w = (Resolved v, w') \<longrightarrow>
            v = JRef product \<and> truthy v) \<and>
   (\<forall>pl w'. put_products_id ext rules ObjectId coll req w \<noteq> (Sent 404 pl, w'))"
proof (intro conjI allI impI)
  fix v w' assume "DB_update ObjectId coll pid product w = (Resolved v, w')"
  then show "v = JRef product" by (rule DB_update_resolved)
  then show "truthy v" by simp
next
  fix pl w'
  show "put_products_id ext rules ObjectId coll req w \<noteq> (Sent 404 pl, w')"
    by (auto simp: put_products_id_def Let_def split: prod.splits outcome.splits
        dest: DB_update_resolved)
qed

theorem update_never_falsy_witness:
  "DB_update hexObjectId (memory krabsId) ''6439519dadb77c080671a573'' 0 stocked
     = (Resolved (JRef 0), stocked) \<and> truthy (JRef 0) \<and>
   put_products_id lenient productValidationRules hexObjectId (memory krabsId) krabsRequest stocked
     = (Sent 200 (Json (JObj krabs)), stocked)"
proof -
  have u: "DB_update hexObjectId (memory krabsId) ''6439519dadb77c080671a573'' 0 stocked
     = (Resolved (JRef 0), stocked)"
    by (simp add: DB_update_def hexObjectId_krabs stocked_def memory_def hasId_def krabs_def)
  have q: "put_products_id lenient productValidationRules hexObjectId (memory krabsId)
             krabsRequest stocked = (Sent 200 (Json (JObj krabs)), stocked)"
    using u krabs_valid by (simp add: put_products_id_def krabsRequest_def send_def stocked_def)
  from update_never_falsy [of hexObjectId "memory krabsId" "''6439519dadb77c080671a573''" 0
      stocked lenient productValidationRules krabsRequest] u q
  show ?thesis by simp
qed

text \<open>
  The claim C8 as it was stated fails on an identifier that does not parse: the call
  neither resolves nor rejects, it throws.
\<close>

theorem update_throws_counterexample:
  "hexObjectId ''abc'' = None \<and>
   DB_update hexObjectId (memory krabsId) ''abc'' 0 emptyStore = (Thrown BSONError, emptyStore)"
  by (simp add: DB_update_def hexObjectId_def)

lemma find_None_list_ex: "List.find P xs = None \<longleftrightarrow> \<not> list_ex P xs"
  by (induction xs) auto

lemma find_Some_list_ex: "List.find P xs = Some d \<Longrightarrow> list_ex P xs"
  by (induction xs) (auto split: if_splits)

lemma find_removeFirst:
  "List.find P xs = Some d \<Longrightarrow> d \<in> set xs \<and> P d \<and> length (removeFirst P xs) < length xs"
  by (induction xs) (auto split: if_splits)

lemma removeFirst_none: "List.find P xs = None \<Longrightarrow> removeFirst P xs = xs"
  by (induction xs) (auto split: if_splits)

text \<open>
  C7. For an identifier that parses, \<open>delete\<close> on the working store resolves with the
  document it removed when one matches, and with null, which is no error, when none
  matches, so that the route answers 404 \<open>Product not found\<close>. With any collection,
  \<open>delete\<close> is rejected only when the driver's call was rejected or its reply was not ok,
  and throws only when the driver's call threw.
\<close>

theorem delete_outcomes:
  assumes "ObjectId pid = Some oid"
  shows "(\<forall>d. List.find (hasId (JId oid)) (store w) = Some d \<longrightarrow>
            DB_delete ObjectId (memory n) pid w
              = (Resolved (JObj d), w\<lparr>store := removeFirst (hasId (JId oid)) (store w)\<rparr>) \<and>
            d \<in> set (store w) \<and> hasId (JId oid) d \<and>
            length (removeFirst (hasId (JId oid)) (store w)) < length (store w)) \<and>
         (List.find (hasId (JId oid)) (store w) = None \<longrightarrow>
            DB_delete ObjectId (memory n) pid w = (Resolved JNull, w) \<and>
            delete_products_id ObjectId (memory n) (req\<lparr>params_id := pid\<rparr>) w
              = (Sent 404 (Text ''Product not found''), w)) \<and>
         (\<forall>e u'. DB_delete ObjectId coll pid u = (Rejected e, u') \<longrightarrow>
            (\<exists>s'. findOneAndDelete coll oid (store u) = (Rejected e, s')) \<or>
            (\<exists>r s'. findOneAndDelete coll oid (store u) = (Resolved r, s') \<and> ok r = 0 \<and>
                e = Error ''Error deleting product'')) \<and>
         (\<forall>e u'. DB_delete ObjectId coll pid u = (Thrown e, u') \<longrightarrow>
            (\<exists>s'. findOneAndDelete coll oid (store u) = (Thrown e, s')))"
proof (intro conjI allI impI)
  fix d assume f: "List.find (hasId (JId oid)) (store w) = Some d"
  then show "DB_delete ObjectId (memory n) pid w
              = (Resolved (JObj d), w\<lparr>store := removeFirst (hasId (JId oid)) (store w)\<rparr>)"
    using assms by (simp add: DB_delete_def memory_def)
  from find_removeFirst [OF f]
  show "d \<in> set (store w)" "hasId (JId oid) d"
    "length (removeFirst (hasId (JId oid)) (store w)) < length (store w)" by simp_all
next
  assume f: "List.find (hasId (JId oid)) (store w) = None"
  then show d: "DB_delete ObjectId (memory n) pid w = (Resolved JNull, w)"
    using assms by (simp add: DB_delete_def memory_def removeFirst_none)
  show "delete_products_id ObjectId (memory n) (req\<lparr>params_id := pid\<rparr>) w
              = (Sent 404 (Text ''Product not found''), w)"
    by (simp add: delete_products_id_def d)
next
  fix e u' assume "DB_delete ObjectId coll pid u = (Rejected e, u')"
  then show "(\<exists>s'. findOneAndDelete coll oid (store u) = (Rejected e, s')) \<or>
            (\<exists>r s'. findOneAndDelete coll oid (store u) = (Resolved r, s') \<and> ok r = 0 \<and>
                e = Error ''Error deleting product'')"
    using assms
    by (auto simp: DB_delete_def split: prod.splits outcome.splits if_splits)
next
  fix e u' assume "DB_delete ObjectId coll pid u = (Thrown e, u')"
  then show "\<exists>s'. findOneAndDelete coll oid (store u) = (Thrown e, s')"
    using assms
    by (auto simp: DB_delete_def split: prod.splits outcome.splits if_splits)
qed

theorem delete_outcomes_witness:
  "hexObjectId ''6439519dadb77c080671a573'' = Some krabsId \<and>
   List.find (hasId (JId krabsId)) (store stocked) = Some ((''_id'', JId krabsId) # krabs) \<and>
   DB_delete hexObjectId (memory krabsId) ''6439519dadb77c080671a573'' stocked
     = (Resolved (JObj ((''_id'', JId krabsId) # krabs)), emptyStore) \<and>
   List.find (hasId (JId krabsId)) (store emptyStore) = None \<and>
   delete_products_id hexObjectId (memory krabsId) krabsRequest emptyStore
     = (Sent 404 (Text ''Product not found''), emptyStore) \<and>
   DB_delete hexObjectId (failing (StoreError ''connection closed'')) ''6439519dadb77c080671a573''
     emptyStore = (Rejected (StoreError ''connection closed''), emptyStore) \<and>
   findOneAndDelete (failing (StoreError ''connection closed'')) krabsId (store emptyStore)
     = (Rejected (StoreError ''connection closed''), store emptyStore) \<and>
   DB_delete hexObjectId unconnected ''6439519dadb77c080671a573'' emptyStore
     = (Thrown TypeError, emptyStore) \<and>
   findOneAndDelete unconnected krabsId (store emptyStore) = (Thrown TypeError, store emptyStore)"
proof -
  have f1: "List.find (hasId (JId krabsId)) (store stocked) = Some ((''_id'', JId krabsId) # krabs)"
    by (simp add: stocked_def hasId_def)
  have f2: "List.find (hasId (JId krabsId)) (store emptyStore) = None"
    by (simp add: emptyStore_def)
  have r: "DB_delete hexObjectId (failing (StoreError ''connection closed''))
     ''6439519dadb77c080671a573'' emptyStore
       = (Rejected (StoreError ''connection closed''), emptyStore)"
    by (simp add: DB_delete_def hexObjectId_krabs failing_def)
  have t: "DB_delete hexObjectId unconnected ''6439519dadb77c080671a573'' emptyStore
       = (Thrown TypeError, emptyStore)"
    by (simp add: DB_delete_def hexObjectId_krabs unconnected_def)
  have e: "stocked\<lparr>store := removeFirst (hasId (JId krabsId)) (store stocked)\<rparr> = emptyStore"
    by (simp add: stocked_def emptyStore_def hasId_def)
  have q: "krabsRequest\<lparr>params_id := ''6439519dadb77c080671a573''\<rparr> = krabsRequest"
    by (simp add: krabsRequest_def)
  from delete_outcomes [of hexObjectId "''6439519dadb77c080671a573''" krabsId stocked krabsId
      krabsRequest "failing (StoreError ''connection closed'')" emptyStore]
    delete_outcomes [of hexObjectId "''6439519dadb77c080671a573''" krabsId emptyStore krabsId
      krabsRequest "failing (StoreError ''connection closed'')" emptyStore]
    delete_outcomes [of hexObjectId "''6439519dadb77c080671a573''" krabsId emptyStore krabsId
      krabsRequest unconnected emptyStore]
    f1 f2 r t e q hexObjectId_krabs
  show ?thesis by (simp add: failing_def unconnected_def)
qed

section \<open>Properties of the routes\<close>

text \<open>
  C1, as the code has it. The route of GET answers 404 exactly when the identifier
  parses and the store's \<open>findOne\<close> resolves with a falsy value; on the working store,
  exactly when the identifier parses and no stored document carries it.
\<close>

theorem get_404_iff_absent:
  "(fst (get_products_id ObjectId coll req u) = Sent 404 pl \<longleftrightarrow>
      (\<exists>oid v s'. ObjectId (params_id req) = Some oid \<and>
          findOne coll oid (store u) = (Resolved v, s') \<and> \<not> truthy v) \<and>
      pl = Text ''Product not found'') \<and>
   (fst (get_products_id ObjectId (memory n) req w) = Sent 404 pl \<longleftrightarrow>
      (\<exists>oid. ObjectId (params_id req) = Some oid \<and> \<not> list_ex (hasId (JId oid)) (store w)) \<and>
      pl = Text ''Product not found'')"
proof -
  have g: "fst (get_products_id ObjectId c req w) = Sent 404 pl \<longleftrightarrow>
      (\<exists>oid v s'. ObjectId (params_id req) = Some oid \<and>
          findOne c oid (store w) = (Resolved v, s') \<and> \<not> truthy v) \<and>
      pl = Text ''Product not found''" for c :: "'c collection" and w
    by (auto simp: get_products_id_def DB_queryById_def send_def
        split: option.splits prod.splits outcome.splits jsval.splits)
  have m: "(\<exists>v s'. findOne (memory n) oid (store w) = (Resolved v, s') \<and> \<not> truthy v)
        \<longleftrightarrow> \<not> list_ex (hasId (JId oid)) (store w)" for oid
    by (cases "List.find (hasId (JId oid)) (store w)")
      (auto simp: memory_def find_None_list_ex [symmetric] dest: find_Some_list_ex)
  have g2: "fst (get_products_id ObjectId (memory n) req w) = Sent 404 pl \<longleftrightarrow>
      (\<exists>oid. ObjectId (params_id req) = Some oid \<and> \<not> list_ex (hasId (JId oid)) (store w)) \<and>
      pl = Text ''Product not found''"
    unfolding g using m by blast
  show ?thesis using g [of coll u] g2 by blast
qed

theorem get_404_iff_absent_witness:
  "fst (get_products_id hexObjectId (memory krabsId) krabsRequest emptyStore)
     = Sent 404 (Text ''Product not found'') \<and>
   hexObjectId (params_id krabsRequest) = Some krabsId \<and>
   \<not> list_ex (hasId (JId krabsId)) (store emptyStore)"
  using get_404_iff_absent [of hexObjectId "memory krabsId" krabsRequest emptyStore
      "Text ''Product not found''" krabsId emptyStore]
  by (simp add: hexObjectId_krabs krabsRequest_def emptyStore_def)

text \<open>
  The claim C1 as it was stated fails: on an identifier that does not parse,
  \<open>queryById\<close> throws before it returns a promise, neither \<open>then\<close> nor \<open>catch\<close> of the
  route runs, and the route sends no response, so no 404.
\<close>

theorem get_malformed_counterexample:
  "hexObjectId ''abc'' = None \<and>
   get_products_id hexObjectId (memory krabsId) (krabsRequest\<lparr>params_id := ''abc''\<rparr>) emptyStore
     = (Unanswered BSONError, emptyStore)"
  by (simp add: get_products_id_def DB_queryById_def hexObjectId_def)

text \<open>
  C2 at a failing input: a valid body, an identifier that parses, and a store without
  that document. \<open>replaceOne\<close> matches nothing, \<open>update\<close> throws inside \<open>then\<close>, and the
  route answers 500 \<open>Error updating product\<close>, not 404.
\<close>

theorem put_missing_answers_500:
  "validationResult lenient productValidationRules krabsRequest (heap emptyStore) = [] \<and>
   hexObjectId (params_id krabsRequest) = Some krabsId \<and>
   store emptyStore = [] \<and>
   put_products_id lenient productValidationRules hexObjectId (memory krabsId) krabsRequest
     emptyStore = (Sent 500 (Text ''Error updating product''), emptyStore)"
  using krabs_valid hexObjectId_krabs
  by (simp add: put_products_id_def DB_update_def emptyStore_def krabsRequest_def memory_def
      krabs_def)

section \<open>Properties of the validation\<close>

lemma runChains_append:
  "runChains ext req h known (pre @ cs)
     = runChains ext req h known pre @ runChains ext req h (known @ chainFields pre) cs"
  by (induction pre arbitrary: known rule: chainFields.induct) simp_all

lemma runChains_Check:
  "Check f v m \<in> set cs \<Longrightarrow>
     set (checkErrors ext req h f v m) \<subseteq> set (runChains ext req h known cs)"
  by (induction cs arbitrary: known rule: chainFields.induct) auto

text \<open>
  C6. Every chain of the rules is run and each adds its errors to the result: the errors
  of every \<open>check\<close>, and those of \<open>checkExact\<close> for the fields known before it, are
  all among the errors of the request. When there is any error, POST and PUT answer 400
  with all of them, whatever the collection is, and leave heap and store as they were:
  no operation of the gateway runs.
\<close>

theorem validation_collects_and_guards:
  "(\<forall>f v m. Check f v m \<in> set rules \<longrightarrow>
      set (checkErrors ext req (heap w) f v m) \<subseteq> set (validationResult ext rules req (heap w))) \<and>
   (\<forall>pre m post. rules = pre @ CheckExact m # post \<longrightarrow>
      set (exactErrors req (heap w) (chainFields pre) m)
        \<subseteq> set (validationResult ext rules req (heap w))) \<and>
   (validationResult ext rules req (heap w) \<noteq> [] \<longrightarrow>
      post_products ext rules coll req w
        = (Sent 400 (Errors (validationResult ext rules req (heap w))), w) \<and>
      put_products_id ext rules ObjectId coll req w
        = (Sent 400 (Errors (validationResult ext rules req (heap w))), w))"
  by (auto simp: validationResult_def runChains_append post_products_def put_products_id_def
      dest: runChains_Check [THEN subsetD])

theorem validation_collects_and_guards_witness:
  "post_products lenient productValidationRules (memory krabsId) unknownRequest unknownBody
     = (Sent 400 (Errors
         [FieldError ''Name must be a string'' ''body'' ''name'' None,
          FieldError ''Description must be a string'' ''body'' ''description'' None,
          FieldError ''Price must be a positive float'' ''body'' ''price'' (Some (JNum (- 1))),
          FieldError ''Stock must be a positive integer'' ''body'' ''stock'' None,
          FieldError ''URL must be a valid URL'' ''body'' ''image_url'' None,
          UnknownFields ''No additional fields allowed'' [(''colour'', JStr ''red'')]]),
        unknownBody) \<and>
   put_products_id lenient productValidationRules hexObjectId (memory krabsId) unknownRequest unknownBody
     = (Sent 400 (Errors
         [FieldError ''Name must be a string'' ''body'' ''name'' None,
          FieldError ''Description must be a string'' ''body'' ''description'' None,
          FieldError ''Price must be a positive float'' ''body'' ''price'' (Some (JNum (- 1))),
          FieldError ''Stock must be a positive integer'' ''body'' ''stock'' None,
          FieldError ''URL must be a valid URL'' ''body'' ''image_url'' None,
          UnknownFields ''No additional fields allowed'' [(''colour'', JStr ''red'')]]),
        unknownBody)"
proof -
  have v: "validationResult lenient productValidationRules unknownRequest (heap unknownBody)
     = [FieldError ''Name must be a string'' ''body'' ''name'' None,
          FieldError ''Description must be a string'' ''body'' ''description'' None,
          FieldError ''Price must be a positive float'' ''body'' ''price'' (Some (JNum (- 1))),
          FieldError ''Stock must be a positive integer'' ''body'' ''stock'' None,
          FieldError ''URL must be a valid URL'' ''body'' ''image_url'' None,
          UnknownFields ''No additional fields allowed'' [(''colour'', JStr ''red'')]]"
    by (simp add: validationResult_def productValidationRules_def checkErrors_def instanceValues_def
      exactErrors_def selectFields_def unknownRequest_def unknownBody_def lenient_def toLowerCase_def)
  from validation_collects_and_guards [of productValidationRules lenient unknownRequest
      unknownBody "memory krabsId" hexObjectId] v
  show ?thesis by simp
qed

lemma exactErrors_unknown:
  assumes "(k, x) \<in> set (h (body req))" and "k \<notin> set known"
  shows "\<exists>fs. exactErrors req h known m = [UnknownFields m fs] \<and> (k, x) \<in> set fs"
proof -
  let ?fs = "filter (\<lambda>(k, x). k \<notin> set known) (h (body req))"
  from assms have mem: "(k, x) \<in> set ?fs" by simp
  then have ne: "?fs \<noteq> []" by (cases ?fs) simp_all
  show ?thesis unfolding exactErrors_def Let_def using ne mem
    by (intro exI [of _ ?fs]) simp
qed

text \<open>
  C4. A body with a property outside the five recognised fields makes POST and PUT
  answer 400, and the errors contain one with the message \<open>No additional fields
  allowed\<close> that lists the property, whatever the other properties are.
\<close>

theorem extra_field_rejected:
  assumes "(k, x) \<in> set (heap w (body req))"
    and "k \<notin> set [''name'', ''description'', ''price'', ''stock'', ''image_url'']"
  shows "\<exists>es fs.
           post_products ext productValidationRules coll req w = (Sent 400 (Errors es), w) \<and>
           put_products_id ext productValidationRules ObjectId coll req w
             = (Sent 400 (Errors es), w) \<and>
           UnknownFields ''No additional fields allowed'' fs \<in> set es \<and> (k, x) \<in> set fs"
proof -
  from exactErrors_unknown [where h = "heap w" and req = req and k = k and x = x
      and known = "[''name'', ''description'', ''price'', ''stock'', ''image_url'']"
      and m = "''No additional fields allowed''"] assms
  obtain fs where fs: "exactErrors req (heap w)
      [''name'', ''description'', ''price'', ''stock'', ''image_url'']
      ''No additional fields allowed'' = [UnknownFields ''No additional fields allowed'' fs]"
    "(k, x) \<in> set fs" by blast
  let ?es = "validationResult ext productValidationRules req (heap w)"
  have m: "UnknownFields ''No additional fields allowed'' fs \<in> set ?es"
    by (simp add: validationResult_def productValidationRules_def fs(1))
  then have "?es \<noteq> []" by auto
  then have "post_products ext productValidationRules coll req w = (Sent 400 (Errors ?es), w)"
    "put_products_id ext productValidationRules ObjectId coll req w = (Sent 400 (Errors ?es), w)"
    by (simp_all add: post_products_def put_products_id_def)
  with m fs(2) show ?thesis by blast
qed

theorem extra_field_rejected_witness:
  "(''colour'', JStr ''red'') \<in> set (heap extraBody (body unknownRequest)) \<and>
   ''colour'' \<notin> set [''name'', ''description'', ''price'', ''stock'', ''image_url''] \<and>
   (\<exists>es fs.
      post_products lenient productValidationRules (memory krabsId) unknownRequest extraBody
        = (Sent 400 (Errors es), extraBody) \<and>
      put_products_id lenient productValidationRules hexObjectId (memory krabsId) unknownRequest
        extraBody = (Sent 400 (Errors es), extraBody) \<and>
      UnknownFields ''No additional fields allowed'' fs \<in> set es \<and>
      (''colour'', JStr ''red'') \<in> set fs)"
proof -
  have a: "(''colour'', JStr ''red'') \<in> set (heap extraBody (body unknownRequest))"
    by (simp add: extraBody_def unknownRequest_def)
  have b: "''colour'' \<notin> set [''name'', ''description'', ''price'', ''stock'', ''image_url'']"
    by simp
  from extra_field_rejected [OF a b] a b show ?thesis by blast
qed

text \<open>
  C10. With the rules of the variant without the URL rule, a body that has \<open>image_url\<close>
  makes POST and PUT answer 400 with the message \<open>No additional fields allowed\<close>,
  which lists \<open>image_url\<close>. The two lists of rules accept different bodies: the product
  of the scenario passes the rules of index.js and fails those of the variant.
\<close>

theorem image_url_unknown_without_rule:
  assumes "(''image_url'', x) \<in> set (heap w (body req))"
  shows "(\<exists>es fs.
           post_products ext productValidationRules_part_000 coll req w
             = (Sent 400 (Errors es), w) \<and>
           put_products_id ext productValidationRules_part_000 ObjectId coll req w
             = (Sent 400 (Errors es), w) \<and>
           UnknownFields ''No additional fields allowed'' fs \<in> set es \<and>
           (''image_url'', x) \<in> set fs) \<and>
         validationResult lenient productValidationRules krabsRequest (heap emptyStore) = [] \<and>
         validationResult lenient productValidationRules_part_000 krabsRequest (heap emptyStore)
           = [UnknownFields ''No additional fields allowed''
               [(''image_url'', JStr ''https://example.com'')]]"
proof -
  from exactErrors_unknown [where h = "heap w" and req = req and k = "''image_url''" and x = x
      and known = "[''name'', ''description'', ''price'', ''stock'']"
      and m = "''No additional fields allowed''"] assms
  obtain fs where fs: "exactErrors req (heap w)
      [''name'', ''description'', ''price'', ''stock'']
      ''No additional fields allowed'' = [UnknownFields ''No additional fields allowed'' fs]"
    "(''image_url'', x) \<in> set fs" by auto
  let ?es = "validationResult ext productValidationRules_part_000 req (heap w)"
  have m: "UnknownFields ''No additional fields allowed'' fs \<in> set ?es"
    by (simp add: validationResult_def productValidationRules_part_000_def fs(1))
  then have "?es \<noteq> []" by auto
  then have "post_products ext productValidationRules_part_000 coll req w = (Sent 400 (Errors ?es), w)"
    "put_products_id ext productValidationRules_part_000 ObjectId coll req w = (Sent 400 (Errors ?es), w)"
    by (simp_all add: post_products_def put_products_id_def)
  with m fs(2) have a: "\<exists>es fs.
           post_products ext productValidationRules_part_000 coll req w
             = (Sent 400 (Errors es), w) \<and>
           put_products_id ext productValidationRules_part_000 ObjectId coll req w
             = (Sent 400 (Errors es), w) \<and>
           UnknownFields ''No additional fields allowed'' fs \<in> set es \<and>
           (''image_url'', x) \<in> set fs" by blast
  have b: "validationResult lenient productValidationRules_part_000 krabsRequest (heap emptyStore)
           = [UnknownFields ''No additional fields allowed''
               [(''image_url'', JStr ''https://example.com'')]]"
    by (simp add: validationResult_def productValidationRules_part_000_def checkErrors_def instanceValues_def
      exactErrors_def selectFields_def krabsRequest_def emptyStore_def krabs_def lenient_def toLowerCase_def)
  from a b krabs_valid show ?thesis by (simp add: emptyStore_def)
qed

theorem image_url_unknown_without_rule_witness:
  "(''image_url'', JStr ''https://example.com'') \<in> set (heap emptyStore (body krabsRequest)) \<and>
   (\<exists>es fs.
      post_products lenient productValidationRules_part_000 (memory krabsId) krabsRequest
        emptyStore = (Sent 400 (Errors es), emptyStore) \<and>
      put_products_id lenient productValidationRules_part_000 hexObjectId (memory krabsId)
        krabsRequest emptyStore = (Sent 400 (Errors es), emptyStore) \<and>
      UnknownFields ''No additional fields allowed'' fs \<in> set es \<and>
      (''image_url'', JStr ''https://example.com'') \<in> set fs)"
proof -
  have a: "(''image_url'', JStr ''https://example.com'')
             \<in> set (heap emptyStore (body krabsRequest))"
    by (simp add: emptyStore_def krabsRequest_def krabs_def)
  from image_url_unknown_without_rule [OF a] a show ?thesis by blast
qed

lemma selectFields_body:
  assumes "map_of (headers req) (toLowerCase f) = None" and "map_of (query req) f = None"
  shows "selectFields req h f = [(''body'', map_of (h (body req)) f)]"
  using assms by (simp add: selectFields_def)

lemma checkErrors_body_only:
  assumes "map_of (headers req) (toLowerCase f) = None" and "map_of (query req) f = None"
  shows "checkErrors ext req h f v m
           = map (\<lambda>e. FieldError m ''body'' f e)
               (filter (\<lambda>e. \<not> verdict ext v e) (instanceValues v (map_of (h (body req)) f)))"
  by (simp add: checkErrors_def selectFields_body [OF assms])

lemma instanceValues_single:
  "instanceValues v (Some (JNum p)) = [Some (JNum p)]"
  "instanceValues v (Some (JStr t)) = [Some (JStr t)]"
  by (cases v; simp add: instanceValues_def)+

lemma in_concat_map: "x \<in> set xs \<Longrightarrow> y \<in> set (F x) \<Longrightarrow> y \<in> set (concat (map F xs))"
  by auto

lemma failing_number:
  "\<not> verdict ext v (Some (JNum p)) \<Longrightarrow>
     filter (\<lambda>e. \<not> verdict ext v e) (instanceValues v (Some (JNum p))) = [Some (JNum p)]"
  by (simp only: instanceValues_single filter.simps simp_thms if_True)

lemma checkErrors_body_number:
  assumes s: "(''body'', Some (JNum p)) \<in> set (selectFields req h f)"
    and n: "\<not> verdict ext v (Some (JNum p))"
  shows "FieldError m ''body'' f (Some (JNum p)) \<in> set (checkErrors ext req h f v m)"
  unfolding checkErrors_def
  by (rule in_concat_map [OF s]) (simp add: failing_number [OF n])

lemma selectFields_has_body:
  assumes "map_of (h (body req)) f = Some x"
  shows "(''body'', Some x) \<in> set (selectFields req h f)"
proof -
  have "selectFields req h f
          = (''body'', Some x) #
            filter (\<lambda>(l, v). v \<noteq> None)
              [(''cookies'', None),
               (''headers'', map_of (headers req) (toLowerCase f)),
               (''params'', None),
               (''query'', map_of (query req) f)]"
    unfolding selectFields_def Let_def assms by simp
  then show ?thesis by simp
qed

text \<open>
  C5, as the code has it. Take a body with exactly the five fields, texts for name and
  description, an accepted URL and numbers for price and stock. With price 0 and stock 0
  the validation passes and neither POST nor PUT answers 400, provided the request gives
  none of the five fields in its headers or query, which \<open>check\<close> validates as well.
  With a negative price, as -0.01 is, or a negative stock, as -1 is, both answer 400,
  whatever the headers and the query are.
\<close>

theorem zero_boundary:
  assumes b: "map_of (heap w (body req)) ''name'' = Some (JStr n)"
      "map_of (heap w (body req)) ''description'' = Some (JStr d)"
      "map_of (heap w (body req)) ''price'' = Some (JNum price)"
      "map_of (heap w (body req)) ''stock'' = Some (JNum stock)"
      "map_of (heap w (body req)) ''image_url'' = Some url"
    and u: "list_all (verdict ext IsURL) (instanceValues IsURL (Some url))"
    and k: "fst ` set (heap w (body req))
              \<subseteq> set [''name'', ''description'', ''price'', ''stock'', ''image_url'']"
  shows "((\<forall>f \<in> set [''name'', ''description'', ''price'', ''stock'', ''image_url''].
              map_of (headers req) f = None \<and> map_of (query req) f = None) \<and>
          price = 0 \<and> stock = 0 \<longrightarrow>
            validationResult ext productValidationRules req (heap w) = [] \<and>
            (\<forall>pl w'. post_products ext productValidationRules coll req w \<noteq> (Sent 400 pl, w')) \<and>
            (\<forall>pl w'. put_products_id ext productValidationRules ObjectId coll req w
                       \<noteq> (Sent 400 pl, w'))) \<and>
         (price < 0 \<or> stock < 0 \<longrightarrow>
            (\<exists>es. post_products ext productValidationRules coll req w
                     = (Sent 400 (Errors es), w) \<and>
                  put_products_id ext productValidationRules ObjectId coll req w
                     = (Sent 400 (Errors es), w)))"
proof -
  let ?v = "validationResult ext productValidationRules req (heap w)"
  have x: "exactErrors req (heap w) [''name'', ''description'', ''price'', ''stock'', ''image_url'']
             ''No additional fields allowed'' = []"
    using k by (auto simp: exactErrors_def filter_empty_conv)
  have url: "filter (\<lambda>e. \<not> verdict ext IsURL e) (instanceValues IsURL (Some url)) = []"
    using u by (simp add: filter_empty_conv list_all_iff)
  have z: "?v = []"
    if o: "\<forall>f \<in> set [''name'', ''description'', ''price'', ''stock'', ''image_url''].
              map_of (headers req) f = None \<and> map_of (query req) f = None"
      and p: "price = 0" and s: "stock = 0"
  proof -
    have l: "toLowerCase ''name'' = ''name''" "toLowerCase ''description'' = ''description''"
      "toLowerCase ''price'' = ''price''" "toLowerCase ''stock'' = ''stock''"
      "toLowerCase ''image_url'' = ''image_url''"
      by (simp_all add: toLowerCase_def)
    have c: "checkErrors ext req (heap w) ''name'' IsString m = []"
      "checkErrors ext req (heap w) ''description'' IsString m = []"
      "checkErrors ext req (heap w) ''price'' IsFloat m = []"
      "checkErrors ext req (heap w) ''stock'' IsInt m = []"
      "checkErrors ext req (heap w) ''image_url'' IsURL m = []" for m
      using o b p s url
      by (simp_all add: checkErrors_body_only l instanceValues_single)
    show ?thesis by (simp add: validationResult_def productValidationRules_def c x)
  qed
  have m: "?v \<noteq> []" if "price < 0 \<or> stock < 0"
  proof -
    have r: "Check ''price'' IsFloat ''Price must be a positive float''
               \<in> set productValidationRules"
      "Check ''stock'' IsInt ''Stock must be a positive integer'' \<in> set productValidationRules"
      by (simp_all add: productValidationRules_def)
    from that show ?thesis
    proof
      assume "price < 0"
      then have "\<not> verdict ext IsFloat (Some (JNum price))" by simp
      from checkErrors_body_number [where m = "''Price must be a positive float''",
          OF selectFields_has_body [where h = "heap w" and req = req, OF b(3)] this]
        runChains_Check [OF r(1), of ext req "heap w" "[]"]
      show ?thesis unfolding validationResult_def by fastforce
    next
      assume "stock < 0"
      then have "\<not> verdict ext IsInt (Some (JNum stock))" by simp
      from checkErrors_body_number [where m = "''Stock must be a positive integer''",
          OF selectFields_has_body [where h = "heap w" and req = req, OF b(4)] this]
        runChains_Check [OF r(2), of ext req "heap w" "[]"]
      show ?thesis unfolding validationResult_def by fastforce
    qed
  qed
  have p4: "post_products ext productValidationRules coll req w = (Sent 400 pl, w') \<Longrightarrow> ?v \<noteq> []"
    for pl w'
    by (auto simp: post_products_def Let_def split: if_splits prod.splits outcome.splits)
  have q4: "put_products_id ext productValidationRules ObjectId coll req w = (Sent 400 pl, w')
      \<Longrightarrow> ?v \<noteq> []" for pl w'
    by (auto simp: put_products_id_def Let_def split: if_splits prod.splits outcome.splits)
  show ?thesis
  proof (intro conjI impI allI)
    assume a: "(\<forall>f \<in> set [''name'', ''description'', ''price'', ''stock'', ''image_url''].
              map_of (headers req) f = None \<and> map_of (query req) f = None) \<and>
          price = 0 \<and> stock = 0"
    then have e: "?v = []" using z by blast
    then show "?v = []" .
    fix pl w'
    from e p4 show "post_products ext productValidationRules coll req w \<noteq> (Sent 400 pl, w')"
      by blast
    from e q4 show "put_products_id ext productValidationRules ObjectId coll req w
                       \<noteq> (Sent 400 pl, w')" by blast
  next
    assume "price < 0 \<or> stock < 0"
    from m [OF this] show "\<exists>es. post_products ext productValidationRules coll req w
                     = (Sent 400 (Errors es), w) \<and>
                  put_products_id ext productValidationRules ObjectId coll req w
                     = (Sent 400 (Errors es), w)"
      by (simp add: post_products_def put_products_id_def)
  qed
qed

theorem zero_boundary_witness:
  "validationResult lenient productValidationRules krabsRequest (heap (holding (productWith 0 0))) = [] \<and>
   (\<exists>es. post_products lenient productValidationRules (memory krabsId) priceQueryRequest
            (holding (productWith minusCent 0))
            = (Sent 400 (Errors es), holding (productWith minusCent 0))) \<and>
   (\<exists>es. put_products_id lenient productValidationRules hexObjectId (memory krabsId) krabsRequest
            (holding (productWith 0 (- 1)))
            = (Sent 400 (Errors es), holding (productWith 0 (- 1))))"
proof -
  have h: "map_of (heap (holding (productWith p s)) (body r)) ''name'' = Some (JStr ''Mr. Krabs'')"
    "map_of (heap (holding (productWith p s)) (body r)) ''description''
       = Some (JStr ''Geiziger Restaurantbesitzer'')"
    "map_of (heap (holding (productWith p s)) (body r)) ''price'' = Some (JNum p)"
    "map_of (heap (holding (productWith p s)) (body r)) ''stock'' = Some (JNum s)"
    "map_of (heap (holding (productWith p s)) (body r)) ''image_url''
       = Some (JStr ''https://example.com'')"
    "list_all (verdict lenient IsURL) (instanceValues IsURL (Some (JStr ''https://example.com'')))"
    "fst ` set (heap (holding (productWith p s)) (body r))
              \<subseteq> set [''name'', ''description'', ''price'', ''stock'', ''image_url'']"
    if "body r = 0" for p s r
    using that by (simp_all add: holding_def productWith_def lenient_def instanceValues_def)
  have o: "\<forall>f \<in> set [''name'', ''description'', ''price'', ''stock'', ''image_url''].
              map_of (headers krabsRequest) f = None \<and> map_of (query krabsRequest) f = None"
    by (simp add: krabsRequest_def)
  have k: "body krabsRequest = 0" "body priceQueryRequest = 0"
    by (simp_all add: krabsRequest_def priceQueryRequest_def)
  have a: "validationResult lenient productValidationRules krabsRequest
             (heap (holding (productWith 0 0))) = []"
    using zero_boundary [where w = "holding (productWith 0 0)" and req = krabsRequest
        and price = 0 and stock = 0 and ext = lenient and coll = "memory krabsId"
        and ObjectId = hexObjectId, OF h [OF k(1)]] o
    by simp
  have "minusCent < 0" by (simp add: minusCent_def)
  then have b: "\<exists>es. post_products lenient productValidationRules (memory krabsId)
            priceQueryRequest (holding (productWith minusCent 0))
            = (Sent 400 (Errors es), holding (productWith minusCent 0))"
    using zero_boundary [where w = "holding (productWith minusCent 0)"
        and req = priceQueryRequest and price = minusCent and stock = 0 and ext = lenient
        and coll = "memory krabsId" and ObjectId = hexObjectId, OF h [OF k(2)]]
    by blast
  have c: "\<exists>es. put_products_id lenient productValidationRules hexObjectId (memory krabsId)
            krabsRequest (holding (productWith 0 (- 1)))
            = (Sent 400 (Errors es), holding (productWith 0 (- 1)))"
    using zero_boundary [where w = "holding (productWith 0 (- 1))" and req = krabsRequest
        and price = 0 and stock = "- 1" and ext = lenient and coll = "memory krabsId"
        and ObjectId = hexObjectId, OF h [OF k(1)]]
    by simp blast
  from a b c show ?thesis by simp
qed

text \<open>
  The claim C5 as it was stated fails: the body with price 0 and stock 0 and every other
  field valid is answered 400 when the query string of the request carries \<open>price=-1\<close>.
\<close>

theorem zero_with_negative_query_counterexample:
  "heap (holding (productWith 0 0)) (body priceQueryRequest) = productWith 0 0 \<and>
   validationResult lenient productValidationRules krabsRequest (heap (holding (productWith 0 0)))
     = [] \<and>
   query priceQueryRequest = [(''price'', JStr ''-1'')] \<and>
   post_products lenient productValidationRules (memory krabsId) priceQueryRequest
     (holding (productWith 0 0))
     = (Sent 400 (Errors [FieldError ''Price must be a positive float'' ''query'' ''price''
                            (Some (JStr ''-1''))]),
        holding (productWith 0 0)) \<and>
   put_products_id lenient productValidationRules hexObjectId (memory krabsId) priceQueryRequest
     (holding (productWith 0 0))
     = (Sent 400 (Errors [FieldError ''Price must be a positive float'' ''query'' ''price''
                            (Some (JStr ''-1''))]),
        holding (productWith 0 0))"
proof -
  have f: "isFloat ''-1'' = False"
    by (simp add: isFloat_def matchFloat_def isDigit_def isNegative_def roundsToZero_def intOf_def)
  have v: "validationResult lenient productValidationRules krabsRequest
             (heap (holding (productWith 0 0))) = []"
    by (simp add: validationResult_def productValidationRules_def checkErrors_def
        instanceValues_def exactErrors_def selectFields_def krabsRequest_def holding_def
        productWith_def lenient_def toLowerCase_def)
  have q: "validationResult lenient productValidationRules priceQueryRequest
             (heap (holding (productWith 0 0)))
           = [FieldError ''Price must be a positive float'' ''query'' ''price''
                (Some (JStr ''-1''))]"
    by (simp add: validationResult_def productValidationRules_def checkErrors_def
        instanceValues_def exactErrors_def selectFields_def krabsRequest_def holding_def
        productWith_def lenient_def toLowerCase_def priceQueryRequest_def f)
  show ?thesis using v q
    by (simp add: post_products_def put_products_id_def)
      (simp add: priceQueryRequest_def krabsRequest_def holding_def)
qed

section \<open>Creating a product and reading it back\<close>

lemma update_absent: "map_of al k = None \<Longrightarrow> AList.update k v al = al @ [(k, v)]"
  by (induction al) (auto split: if_splits)

lemma find_append_last:
  "\<not> list_ex P xs \<Longrightarrow> P y \<Longrightarrow> List.find P (xs @ [y]) = Some y"
  by (induction xs) auto

lemma filter_unknown_empty:
  "filter (\<lambda>(k, x). k \<notin> K) al = [] \<Longrightarrow> k \<notin> K \<Longrightarrow> map_of al k = None"
  by (induction al) (auto split: if_splits)

lemma exactErrors_empty:
  assumes "exactErrors req h known m = []" and "k \<notin> set known"
  shows "map_of (h (body req)) k = None"
proof -
  from assms(1) have "filter (\<lambda>(k, x). k \<notin> set known) (h (body req)) = []"
    by (simp add: exactErrors_def Let_def split: if_splits)
  from filter_unknown_empty [OF this assms(2)] show ?thesis .
qed

lemma valid_has_no_id:
  assumes "validationResult ext productValidationRules req h = []"
  shows "map_of (h (body req)) ''_id'' = None"
proof -
  from assms have "exactErrors req h [''name'', ''description'', ''price'', ''stock'', ''image_url'']
             ''No additional fields allowed'' = []"
    by (simp add: validationResult_def productValidationRules_def)
  then show ?thesis by (rule exactErrors_empty) simp
qed

text \<open>
  C3. When the body passes the validation, the store works and the generated identifier
  is new to it, POST answers 201 with the product and its \<open>_id\<close>, and GET with that
  identifier, written as the driver writes it, answers 200 with the same product: every
  property but \<open>_id\<close> is as in the body, which had no \<open>_id\<close>.
\<close>

theorem post_then_get:
  assumes v: "validationResult ext productValidationRules req (heap w) = []"
    and fresh: "\<not> list_ex (hasId (JId newId)) (store w)"
    and rt: "ObjectId (toHexString newId) = Some newId"
  shows "\<exists>created w'.
           post_products ext productValidationRules (memory newId) req w
             = (Sent 201 (Json (JObj created)), w') \<and>
           created = heap w (body req) @ [(''_id'', JId newId)] \<and>
           map_of (heap w (body req)) ''_id'' = None \<and>
           (\<forall>k. k \<noteq> ''_id'' \<longrightarrow> map_of created k = map_of (heap w (body req)) k) \<and>
           get_products_id ObjectId (memory n) (req'\<lparr>params_id := toHexString newId\<rparr>) w'
             = (Sent 200 (Json (JObj created)), w')"
proof -
  let ?P = "heap w (body req)"
  let ?C = "?P @ [(''_id'', JId newId)]"
  let ?w' = "\<lparr>heap = (heap w)(body req := ?C), store = store w @ [?C]\<rparr>"
  have noid: "map_of ?P ''_id'' = None" using v by (rule valid_has_no_id)
  have a: "assignPk (memory newId) (store w) ?P = ?C"
    using noid by (simp add: assignPk_def update_absent memory_def)
  have c: "map_of ?C ''_id'' = Some (JId newId)"
    using noid by (simp add: map_add_def)
  have i: "insertOne (memory newId) ?C (store w)
             = (Resolved \<lparr>acknowledged = True, insertedId = JId newId\<rparr>, store w @ [?C])"
    using fresh by (simp add: memory_def c del: map_of_append)
  have u: "AList.update ''_id'' (JId newId) ?C = ?C"
    using c by (rule AList.update_triv)
  have d: "DB_insert (memory newId) (body req) w = (Resolved (JRef (body req)), ?w')"
    by (simp add: DB_insert_def a i u)
  have p: "post_products ext productValidationRules (memory newId) req w
             = (Sent 201 (Json (JObj ?C)), ?w')"
    by (simp add: post_products_def v d send_def)
  have f: "List.find (hasId (JId newId)) (store w @ [?C]) = Some ?C"
    using fresh c by (intro find_append_last) (simp_all add: hasId_def del: map_of_append)
  have g: "get_products_id ObjectId (memory n) (req'\<lparr>params_id := toHexString newId\<rparr>) ?w'
             = (Sent 200 (Json (JObj ?C)), ?w')"
    by (simp add: get_products_id_def DB_queryById_def rt memory_def f send_def)
  have k: "\<forall>k. k \<noteq> ''_id'' \<longrightarrow> map_of ?C k = map_of ?P k"
    by (auto simp: map_add_def split: option.split)
  show ?thesis
    using p g k noid by (intro exI [of _ ?C] exI [of _ ?w'] conjI) simp_all
qed

theorem post_then_get_witness:
  "validationResult lenient productValidationRules krabsRequest (heap emptyStore) = [] \<and>
   \<not> list_ex (hasId (JId krabsId)) (store emptyStore) \<and>
   hexObjectId (toHexString krabsId) = Some krabsId \<and>
   post_products lenient productValidationRules (memory krabsId) krabsRequest emptyStore
     = (Sent 201 (Json (JObj (krabs @ [(''_id'', JId krabsId)]))), afterPost) \<and>
   get_products_id hexObjectId (memory krabsId) krabsRequest afterPost
     = (Sent 200 (Json (JObj (krabs @ [(''_id'', JId krabsId)]))), afterPost)"
proof -
  have v: "validationResult lenient productValidationRules krabsRequest (heap emptyStore) = []"
    using krabs_valid by (simp add: emptyStore_def)
  have f: "\<not> list_ex (hasId (JId krabsId)) (store emptyStore)"
    by (simp add: emptyStore_def)
  have r: "hexObjectId (toHexString krabsId) = Some krabsId"
    using hexObjectId_krabs by (simp add: krabsId_def)
  have q: "krabsRequest\<lparr>params_id := toHexString krabsId\<rparr> = krabsRequest"
    by (simp add: krabsRequest_def krabsId_def)
  from post_then_get [of lenient krabsRequest emptyStore krabsId hexObjectId krabsId krabsRequest,
      OF v f r]
  obtain created w' where
    p: "post_products lenient productValidationRules (memory krabsId) krabsRequest emptyStore
          = (Sent 201 (Json (JObj created)), w')"
    and c: "created = heap emptyStore (body krabsRequest) @ [(''_id'', JId krabsId)]"
    and g: "get_products_id hexObjectId (memory krabsId)
              (krabsRequest\<lparr>params_id := toHexString krabsId\<rparr>) w'
              = (Sent 200 (Json (JObj created)), w')"
    by blast
  have c': "created = krabs @ [(''_id'', JId krabsId)]"
    using c by (simp add: emptyStore_def krabsRequest_def)
  have e: "post_products lenient productValidationRules (memory krabsId) krabsRequest emptyStore
          = (Sent 201 (Json (JObj (krabs @ [(''_id'', JId krabsId)]))), afterPost)"
    using v
    by (simp add: post_products_def DB_insert_def assignPk_def memory_def send_def hasId_def
        emptyStore_def krabsRequest_def afterPost_def krabs_def)
  from p e have w': "w' = afterPost" by simp
  from v f r e g show ?thesis unfolding q w' c' by simp
qed

end
